theory Spec2Isabelle
  imports
    Main
    "HOL-Library.Char_ord"
    "HOL-Library.List_Lexorder"
    "HOL-Library.Multiset"
    "HOL-Library.AList"
begin

section \<open>Python strings\<close>

text \<open>
  A Python \<open>str\<close> is modelled as a \<open>string\<close> whose characters are read as code points
  below 256. On that range the character classes of \<open>re\<close> (\<open>\d\<close>, \<open>\s\<close>, \<open>.\<close>), the
  comparison used by \<open>list.sort\<close> (code point order, a proper prefix first) and
  \<open>str.lower\<close> are exactly the ones below. \<open>str.title\<close> is exact except at the two code
  points U+00B5 and U+00FF, whose title-case forms lie above 255; they are left unchanged.
\<close>

abbreviation newline :: char where
  "newline \<equiv> CHR 0x0A"

definition is_digit :: "char \<Rightarrow> bool" where
  \<comment> \<open>\<open>\d\<close>: the decimal digits\<close>
  "is_digit c \<longleftrightarrow> CHR ''0'' \<le> c \<and> c \<le> CHR ''9''"

definition is_space :: "char \<Rightarrow> bool" where
  \<comment> \<open>\<open>\s\<close>: the white space characters below 256\<close>
  "is_space c \<longleftrightarrow> c \<in> set [CHR 0x09, CHR 0x0A, CHR 0x0B, CHR 0x0C, CHR 0x0D,
     CHR 0x1C, CHR 0x1D, CHR 0x1E, CHR 0x1F, CHR 0x20, CHR 0x85, CHR 0xA0]"

definition digit_value :: "char \<Rightarrow> int" where
  "digit_value c = of_char c - 48"

definition int_of_digits :: "string \<Rightarrow> int" where
  \<comment> \<open>\<open>int(s)\<close> for a string \<open>s\<close> of decimal digits\<close>
  "int_of_digits ds = foldl (\<lambda>acc c. 10 * acc + digit_value c) 0 ds"

definition startswith :: "string \<Rightarrow> string \<Rightarrow> bool" where
  "startswith s pre \<longleftrightarrow> take (length pre) s = pre"

definition endswith :: "string \<Rightarrow> string \<Rightarrow> bool" where
  "endswith s suf \<longleftrightarrow> length suf \<le> length s \<and> drop (length s - length suf) s = suf"

fun str_in :: "string \<Rightarrow> string \<Rightarrow> bool" where
  \<comment> \<open>\<open>sub in s\<close>\<close>
  "str_in sub [] = (sub = [])"
| "str_in sub (c # cs) = (startswith (c # cs) sub \<or> str_in sub cs)"

function py_replace :: "string \<Rightarrow> string \<Rightarrow> string \<Rightarrow> string" where
  \<comment> \<open>\<open>s.replace(old, new)\<close>: the occurrences of \<open>old\<close>, leftmost first, not overlapping\<close>
  "py_replace old new s =
     (if old = [] then new @ concat (map (\<lambda>c. c # new) s)
      else if s = [] then []
      else if startswith s old then new @ py_replace old new (drop (length old) s)
      else hd s # py_replace old new (tl s))"
  by pat_completeness auto
termination
  by (relation "measure (\<lambda>(old, new, s). length s)") auto

declare py_replace.simps [simp del]

definition upper_letters :: string where
  "upper_letters = ''ABCDEFGHIJKLMNOPQRSTUVWXYZ'' @
     [CHR 0xC0, CHR 0xC1, CHR 0xC2, CHR 0xC3, CHR 0xC4, CHR 0xC5, CHR 0xC6, CHR 0xC7,
      CHR 0xC8, CHR 0xC9, CHR 0xCA, CHR 0xCB, CHR 0xCC, CHR 0xCD, CHR 0xCE, CHR 0xCF,
      CHR 0xD0, CHR 0xD1, CHR 0xD2, CHR 0xD3, CHR 0xD4, CHR 0xD5, CHR 0xD6,
      CHR 0xD8, CHR 0xD9, CHR 0xDA, CHR 0xDB, CHR 0xDC, CHR 0xDD, CHR 0xDE]"

definition lower_letters :: string where
  "lower_letters = ''abcdefghijklmnopqrstuvwxyz'' @
     [CHR 0xE0, CHR 0xE1, CHR 0xE2, CHR 0xE3, CHR 0xE4, CHR 0xE5, CHR 0xE6, CHR 0xE7,
      CHR 0xE8, CHR 0xE9, CHR 0xEA, CHR 0xEB, CHR 0xEC, CHR 0xED, CHR 0xEE, CHR 0xEF,
      CHR 0xF0, CHR 0xF1, CHR 0xF2, CHR 0xF3, CHR 0xF4, CHR 0xF5, CHR 0xF6,
      CHR 0xF8, CHR 0xF9, CHR 0xFA, CHR 0xFB, CHR 0xFC, CHR 0xFD, CHR 0xFE]"

definition lower_char :: "char \<Rightarrow> char" where
  "lower_char c = (case map_of (zip upper_letters lower_letters) c of Some l \<Rightarrow> l | None \<Rightarrow> c)"

definition title_char :: "char \<Rightarrow> string" where
  \<comment> \<open>the title-case form of one character; U+00DF becomes two characters\<close>
  "title_char c =
     (if c = CHR 0xDF then ''Ss''
      else case map_of (zip lower_letters upper_letters) c of Some u \<Rightarrow> [u] | None \<Rightarrow> [c])"

definition is_cased :: "char \<Rightarrow> bool" where
  "is_cased c \<longleftrightarrow> c \<in> set upper_letters \<or> c \<in> set lower_letters \<or>
     c \<in> set [CHR 0xAA, CHR 0xB5, CHR 0xBA, CHR 0xDF, CHR 0xFF]"

definition py_lower :: "string \<Rightarrow> string" where
  "py_lower s = map lower_char s"

fun title_from :: "bool \<Rightarrow> string \<Rightarrow> string" where
  \<comment> \<open>the loop of \<open>str.title\<close>; the flag says that the previous character was cased\<close>
  "title_from previous_is_cased [] = []"
| "title_from previous_is_cased (c # cs) =
     (if previous_is_cased then [lower_char c] else title_char c) @ title_from (is_cased c) cs"

definition py_title :: "string \<Rightarrow> string" where
  "py_title s = title_from False s"

section \<open>Slide discovery\<close>

subsection \<open>The filename pattern\<close>

text \<open>
  \<open>slide_pattern = re.compile(r'^(\d{3})-(.+)\.html$')\<close>, applied with \<open>match\<close>. The
  dot does not match a line break and \<open>$\<close> matches at the end of the string and also
  just before a line break that ends the string. The end of the match is therefore fixed,
  and so are the two groups: three digits, and everything between the hyphen and the
  final \<open>.html\<close>.
\<close>

definition slide_pattern_match :: "string \<Rightarrow> (string \<times> string) option" where
  "slide_pattern_match s =
     (let body = (if s \<noteq> [] \<and> last s = newline then butlast s else s);
          number = take 3 body;
          title_slug = drop 4 (take (length body - 5) body)
      in if 10 \<le> length body \<and> list_all is_digit number \<and> body ! 3 = CHR ''-'' \<and>
            endswith body ''.html'' \<and> newline \<notin> set title_slug
         then Some (number, title_slug) else None)"

text \<open>
  The naming convention of the specification, \<open>NNN-slug.html\<close>: three decimal digits, a
  hyphen, a slug of at least one character on one line, and the extension at the very end.
\<close>

definition is_slide_name :: "string \<Rightarrow> bool" where
  "is_slide_name f \<longleftrightarrow>
     10 \<le> length f \<and> list_all is_digit (take 3 f) \<and> f ! 3 = CHR ''-'' \<and>
     endswith f ''.html'' \<and> newline \<notin> set (drop 4 (take (length f - 5) f))"

subsection \<open>The title marker\<close>

text \<open>
  \<open>re.search(r'<title>.*?-\s*(.+?)</title>', content)\<close>. The functions follow the
  backtracking order of the matcher, so the group they return is the one \<open>re\<close> returns:
  the leftmost start; from there the shortest run up to a hyphen (\<open>.*?-\<close>); after it the
  longest run of white space (\<open>\s*\<close>), giving characters back one at a time; then the
  shortest non-empty run that is followed by the closing tag (\<open>(.+?)</title>\<close>).
\<close>

fun match_group :: "string \<Rightarrow> string option" where
  \<comment> \<open>\<open>(.+?)</title>\<close> at the start of the string\<close>
  "match_group [] = None"
| "match_group (c # cs) =
     (if c = newline then None
      else if startswith cs ''</title>'' then Some [c]
      else map_option ((#) c) (match_group cs))"

fun match_spaces :: "string \<Rightarrow> string option" where
  \<comment> \<open>\<open>\s*(.+?)</title>\<close> at the start of the string\<close>
  "match_spaces [] = match_group []"
| "match_spaces (c # cs) =
     (if is_space c
      then (case match_spaces cs of Some g \<Rightarrow> Some g | None \<Rightarrow> match_group (c # cs))
      else match_group (c # cs))"

fun match_dash :: "string \<Rightarrow> string option" where
  \<comment> \<open>\<open>.*?-\s*(.+?)</title>\<close> at the start of the string\<close>
  "match_dash [] = None"
| "match_dash (c # cs) =
     (case (if c = CHR ''-'' then match_spaces cs else None) of
        Some g \<Rightarrow> Some g
      | None \<Rightarrow> if c = newline then None else match_dash cs)"

fun title_search :: "string \<Rightarrow> string option" where
  \<comment> \<open>the search: group 1 of the first match, or \<open>None\<close>\<close>
  "title_search [] = None"
| "title_search (c # cs) =
     (case (if startswith (c # cs) ''<title>'' then match_dash (drop 7 (c # cs)) else None) of
        Some g \<Rightarrow> Some g
      | None \<Rightarrow> title_search cs)"

subsection \<open>The directory and the slides\<close>

datatype py_error =
    ValueError
  | FileNotFoundError
  | FileExistsError
  | NotADirectoryError
  | IsADirectoryError
  | PermissionError
  | UnicodeDecodeError
  | OSError

text \<open>
  A directory is the list of its entries in the order \<open>os.listdir\<close> returns them, each
  with what reading it as UTF-8 text gives: the text, or the exception raised.
\<close>

type_synonym directory = "(string \<times> (py_error + string)) list"

definition listdir :: "directory \<Rightarrow> string list" where
  "listdir d = map fst d"

definition read_text :: "directory \<Rightarrow> string \<Rightarrow> py_error + string" where
  "read_text d f = (case map_of d f of Some r \<Rightarrow> r | None \<Rightarrow> Inl FileNotFoundError)"

record slide =
  number :: string
  title :: string
  filename :: string
  "section" :: string

text \<open>
  Where a file is written: in the slides directory itself, by name; below a subdirectory
  of it, by the relative path, when the name holds a separator; or at a path given on the
  command line, which is taken to lie outside the slides directory.
\<close>

datatype location = InSlidesDir string | InSubdirectory string | Elsewhere string

text \<open>What \<open>click.echo\<close> prints, one constructor for each message of the program.\<close>

datatype message =
    DirectoryDoesNotExist
  | NoHtmlFilesFound
  | CouldNotRead string py_error
  | SkippingFile string
  | LookingForSlides
  | PageTitle string
  | OutputFile location
  | CreatingSampleSlides
  | CreatedSampleSlide string
  | NoValidSlidesFound
  | ExpectedPattern
  | DiscoveredSlides nat
  | DiscoveredSlide string string string
  | GeneratedNavigation location
  | SavedMetadata location
  | Success location
  | FoundSlidesTotal nat
  | SectionCount string nat
  | CreatedSlide location

definition slug_title :: "string \<Rightarrow> string" where
  \<comment> \<open>\<open>title_slug.replace('-', ' ').replace('and', '&').title()\<close>\<close>
  "slug_title title_slug =
     py_title (py_replace ''and'' ''&'' (py_replace ''-'' '' '' title_slug))"

definition discover_file :: "directory \<Rightarrow> string \<Rightarrow> slide list \<times> message list" where
  \<comment> \<open>the body of the loop: the slides appended and the messages printed for one file\<close>
  "discover_file d fname =
     (case slide_pattern_match fname of
        Some (num, title_slug) \<Rightarrow>
          (case read_text d fname of
             Inr content \<Rightarrow>
               ([\<lparr>number = num,
                  title = (case title_search content of
                             Some t \<Rightarrow> t | None \<Rightarrow> slug_title title_slug),
                  filename = fname,
                  section = (if str_in ''Appendix'' content then ''Appendix'' else ''Main'')\<rparr>],
                [])
           | Inl e \<Rightarrow>
               ([\<lparr>number = num,
                  title = slug_title title_slug,
                  filename = fname,
                  section = (if int_of_digits num > 10 then ''Appendix'' else ''Main'')\<rparr>],
                [CouldNotRead fname e]))
      | None \<Rightarrow> ([], [SkippingFile fname]))"

fun discover_loop ::
  "directory \<Rightarrow> string list \<Rightarrow> slide list \<times> message list \<Rightarrow> slide list \<times> message list"
where
  "discover_loop d [] acc = acc"
| "discover_loop d (fname # rest) (slides, out) =
     discover_loop d rest (slides @ fst (discover_file d fname), out @ snd (discover_file d fname))"

definition html_files :: "directory \<Rightarrow> string list" where
  \<comment> \<open>\<open>[f for f in os.listdir(slides_dir) if f.endswith('.html') and f != 'index.html']\<close>\<close>
  "html_files d = filter (\<lambda>f. endswith f ''.html'' \<and> f \<noteq> ''index.html'') (listdir d)"

definition discover_slides :: "directory option \<Rightarrow> slide list \<times> message list" where
  \<comment> \<open>\<open>None\<close>: the directory does not exist\<close>
  "discover_slides slides_dir =
     (case slides_dir of
        None \<Rightarrow> ([], [DirectoryDoesNotExist])
      | Some d \<Rightarrow>
          if html_files d = [] then ([], [NoHtmlFilesFound])
          else discover_loop d (sort (html_files d)) ([], []))"

section \<open>Generated text\<close>

subsection \<open>Numbers and JSON\<close>

fun str_nat :: "nat \<Rightarrow> string" where
  \<comment> \<open>\<open>str(n)\<close> for \<open>n \<ge> 0\<close>\<close>
  "str_nat n =
     (if n < 10 then [''0123456789'' ! n]
      else str_nat (n div 10) @ [''0123456789'' ! (n mod 10)])"

declare str_nat.simps [simp del]

definition str_int :: "int \<Rightarrow> string" where
  "str_int i = (if i < 0 then ''-'' @ str_nat (nat (- i)) else str_nat (nat i))"

definition zfill :: "nat \<Rightarrow> string \<Rightarrow> string" where
  "zfill w s = replicate (w - length s) (CHR ''0'') @ s"

definition format_03d :: "int \<Rightarrow> string" where
  \<comment> \<open>\<open>f"{n:03d}"\<close>: the sign counts towards the width\<close>
  "format_03d n =
     (if n < 0 then ''-'' @ zfill 2 (str_nat (nat (- n))) else zfill 3 (str_nat (nat n)))"

fun join :: "string \<Rightarrow> string list \<Rightarrow> string" where
  \<comment> \<open>\<open>sep.join(xs)\<close>\<close>
  "join sep [] = []"
| "join sep [x] = x"
| "join sep (x # y # ys) = x @ sep @ join sep (y # ys)"

definition json_escape_char :: "char \<Rightarrow> string" where
  \<comment> \<open>\<open>json.dumps\<close> with \<open>ensure_ascii\<close>: everything outside \<open>' '..'~'\<close> is escaped\<close>
  "json_escape_char c =
     (if c = CHR 0x22 then [CHR 0x5C, CHR 0x22]
      else if c = CHR 0x5C then [CHR 0x5C, CHR 0x5C]
      else if c = CHR 0x0A then [CHR 0x5C, CHR ''n'']
      else if c = CHR 0x0D then [CHR 0x5C, CHR ''r'']
      else if c = CHR 0x09 then [CHR 0x5C, CHR ''t'']
      else if c = CHR 0x08 then [CHR 0x5C, CHR ''b'']
      else if c = CHR 0x0C then [CHR 0x5C, CHR ''f'']
      else if CHR 0x20 \<le> c \<and> c \<le> CHR 0x7E then [c]
      else [CHR 0x5C, CHR ''u'', CHR ''0'', CHR ''0'',
            ''0123456789abcdef'' ! (of_char c div 16), ''0123456789abcdef'' ! (of_char c mod 16)])"

definition json_str :: "string \<Rightarrow> string" where
  "json_str s = [CHR 0x22] @ concat (map json_escape_char s) @ [CHR 0x22]"

definition json_dumps :: "string list \<Rightarrow> string" where
  \<comment> \<open>\<open>json.dumps\<close> of a list of strings\<close>
  "json_dumps xs = ''['' @ join '', '' (map json_str xs) @ '']''"

subsection \<open>The metadata file\<close>

text \<open>
  \<open>save_slide_metadata\<close> groups the slides by section in a dictionary, which keeps the
  order in which its keys were first inserted, and writes the whole with
  \<open>json.dump(metadata, f, indent=2)\<close>.
\<close>

fun group_sections :: "slide list \<Rightarrow> (string \<times> slide list) list \<Rightarrow> (string \<times> slide list) list"
where
  "group_sections [] sections = sections"
| "group_sections (s # rest) sections =
     group_sections rest
       (AList.update (section s)
          ((case map_of sections (section s) of None \<Rightarrow> [] | Some members \<Rightarrow> members) @ [s])
          sections)"

definition indent :: "nat \<Rightarrow> string" where
  "indent n = replicate n (CHR '' '')"

definition json_slide :: "nat \<Rightarrow> slide \<Rightarrow> string" where
  \<open>json_slide n s =
     ''{'' @ [newline] @
     join ('','' @ [newline])
       (map (\<lambda>(k, v). indent (n + 2) @ json_str k @ '': '' @ json_str v)
          [(''number'', number s), (''title'', title s),
           (''filename'', filename s), (''section'', section s)]) @
     [newline] @ indent n @ ''}''\<close>

definition json_slides :: "nat \<Rightarrow> slide list \<Rightarrow> string" where
  \<open>json_slides n xs =
     (if xs = [] then ''[]''
      else ''['' @ [newline] @
           join ('','' @ [newline]) (map (\<lambda>s. indent (n + 2) @ json_slide (n + 2) s) xs) @
           [newline] @ indent n @ '']'')\<close>

definition json_sections :: "nat \<Rightarrow> (string \<times> slide list) list \<Rightarrow> string" where
  \<open>json_sections n sections =
     (if sections = [] then ''{}''
      else ''{'' @ [newline] @
           join ('','' @ [newline])
             (map (\<lambda>(k, v). indent (n + 2) @ json_str k @ '': '' @ json_slides (n + 2) v)
                sections) @
           [newline] @ indent n @ ''}'')\<close>

definition metadata_json :: "slide list \<Rightarrow> string" where
  \<open>metadata_json slides =
     ''{'' @ [newline] @
     ''  "total_slides": '' @ str_nat (length slides) @ '','' @ [newline] @
     ''  "slides": '' @ json_slides 2 slides @ '','' @ [newline] @
     ''  "sections": '' @ json_sections 2 (group_sections slides []) @ [newline] @
     ''}''\<close>

subsection \<open>Static text\<close>

text \<open>
  The templates of the program are long literal texts with a few holes. The holes and the
  short pieces between them are written out below. The long pieces, which are constants
  of the program and hold characters above 255, are the fields of this record:
  \<^item> \<open>base_styles\<close>: what \<open>create_base_styles()\<close> returns;
  \<^item> \<open>content_001\<close>, \<open>content_002\<close>, \<open>content_011\<close>: the bodies of the three sample slides;
  \<^item> \<open>nav_styles\<close>: the navigation template from the end of the first title hole to the
    second one (style sheet and opening of the sidebar);
  \<^item> \<open>nav_controls\<close>: from the hole in \<open>goToSlide(...)\<close> of the last button to
    \<open>const slides =\<close>;
  \<^item> \<open>nav_script\<close>: from the end of \<open>slideFilenames\<close> to the title hole of the script;
  \<^item> \<open>nav_script_end\<close>: from \<open>_slides.pdf\<close> to the end of the page.
\<close>

record static_text =
  base_styles :: string
  content_001 :: string
  content_002 :: string
  content_011 :: string
  nav_styles :: string
  nav_controls :: string
  nav_script :: string
  nav_script_end :: string

subsection \<open>The slide template\<close>

definition create_slide_template :: "static_text \<Rightarrow> string \<Rightarrow> string \<Rightarrow> string option \<Rightarrow> string"
where
  \<open>create_slide_template txt ttl content sect =
     (let section_badge =
            (case sect of
               None \<Rightarrow> []
             | Some s \<Rightarrow>
                 if s = [] then []
                 else ''<div style="background: #e74c3c; color: white; padding: 5px 15px; '' @
                      ''border-radius: 20px; display: inline-block; margin-bottom: 20px; '' @
                      ''font-size: 0.9em;">'' @ s @ ''</div>'')
      in ''<!DOCTYPE html>\<newline>'' @
         ''<html lang="en">\<newline>'' @
         ''<head>\<newline>'' @
         ''    <meta charset="UTF-8">\<newline>'' @
         ''    <meta name="viewport" content="width=device-width, initial-scale=1.0">\<newline>'' @
         ''    <title>'' @ ttl @ ''</title>\<newline>'' @
         ''    '' @ base_styles txt @ ''\<newline>'' @
         ''</head>\<newline>'' @
         ''<body>\<newline>'' @
         ''    <div class="slide-container">\<newline>'' @
         ''        '' @ section_badge @ ''\<newline>'' @
         ''        '' @ content @ ''\<newline>'' @
         ''    </div>\<newline>'' @
         ''</body>\<newline>'' @
         ''</html>'')\<close>

definition slide_filename :: "string \<Rightarrow> string \<Rightarrow> string" where
  \<comment> \<open>\<open>f"{number}-{title.lower().replace(' ', '-').replace('&', 'and')}.html"\<close>\<close>
  "slide_filename num ttl =
     num @ ''-'' @ py_replace ''&'' ''and'' (py_replace '' '' ''-'' (py_lower ttl)) @ ''.html''"

subsection \<open>The navigation page\<close>

definition slides_path_prefix :: "string \<Rightarrow> string" where
  \<comment> \<open>the argument is \<open>slides_dir.name\<close>\<close>
  "slides_path_prefix dir_name =
     (let slides_dir_name = (if dir_name \<noteq> ''.'' then dir_name else '''')
      in if slides_dir_name \<noteq> '''' then slides_dir_name @ ''/'' else '''')"

definition section_header :: "string \<Rightarrow> string" where
  \<open>section_header sect = ''<div class="section"><h3>'' @ sect @ ''</h3>''\<close>

definition slide_item :: "string \<Rightarrow> nat \<Rightarrow> slide \<Rightarrow> string" where
  \<open>slide_item prefix i s =
     (let active_class = (if i = 0 then ''active'' else '''');
          slide_path = prefix @ filename s
      in ''\<newline>'' @
         ''            <div class="slide-item '' @ active_class @ ''" onclick="loadSlide('' @
         [CHR 0x27] @ slide_path @ [CHR 0x27] @ '', '' @ str_nat i @ '')">\<newline>'' @
         ''                '' @ number s @ ''. '' @ title s @ ''\<newline>'' @
         ''            </div>\<newline>'' @
         ''        '')\<close>

fun sidebar_loop ::
  "string \<Rightarrow> nat \<Rightarrow> slide list \<Rightarrow> string list \<times> string option \<Rightarrow> string list \<times> string option"
where
  \<comment> \<open>the loop over \<open>enumerate(slides)\<close>; the state is \<open>sidebar_items\<close> and \<open>current_section\<close>\<close>
  "sidebar_loop prefix i [] st = st"
| "sidebar_loop prefix i (s # rest) (sidebar_items, current_section) =
     (let (items1, current1) =
            (if Some (section s) \<noteq> current_section
             then ((if current_section \<noteq> None then sidebar_items @ [''</div>'']
                    else sidebar_items) @ [section_header (section s)],
                   Some (section s))
             else (sidebar_items, current_section))
      in sidebar_loop prefix (Suc i) rest (items1 @ [slide_item prefix i s], current1))"

definition sidebar_items :: "string \<Rightarrow> slide list \<Rightarrow> string list" where
  \<comment> \<open>\<open>sidebar_items\<close> when \<open>''.join\<close> is applied to it\<close>
  "sidebar_items prefix slides =
     (let (items1, current_section) = sidebar_loop prefix 0 slides ([], None)
      in if current_section \<noteq> None then items1 @ [''</div>''] else items1)"

text \<open>
  The page is one template. It is given here in two parts: the page up to the place where
  the script declares its arrays, and the script from there to the end.
\<close>

definition navigation_top :: "static_text \<Rightarrow> slide list \<Rightarrow> string \<Rightarrow> string \<Rightarrow> string" where
  \<comment> \<open>the last argument is \<open>slides_dir.name\<close>\<close>
  \<open>navigation_top txt slides page_title dir_name =
     (let prefix = slides_path_prefix dir_name;
          sidebar_html = concat (sidebar_items prefix slides);
          first_slide = (case slides of [] \<Rightarrow> ''index.html'' | s # _ \<Rightarrow> prefix @ filename s)
      in ''<!DOCTYPE html>\<newline>'' @
         ''<html lang="en">\<newline>'' @
         ''<head>\<newline>'' @
         ''    <meta charset="UTF-8">\<newline>'' @
         ''    <meta name="viewport" content="width=device-width, initial-scale=1.0">\<newline>'' @
         ''    <title>'' @ page_title @ nav_styles txt @ page_title @
         ''</h2>\<newline>'' @
         ''            '' @ sidebar_html @
         ''\<newline>'' @
         ''        </div>\<newline>'' @
         ''        \<newline>'' @
         ''        <div class="main-content">\<newline>'' @
         ''            <div class="slide-counter">\<newline>'' @
         ''                <span id="current-slide">1</span> / '' @ str_nat (length slides) @
         ''\<newline>'' @
         ''            </div>\<newline>'' @
         ''            \<newline>'' @
         ''            <iframe id="slide-frame" class="slide-frame" src="'' @ first_slide @
         ''"></iframe>\<newline>'' @
         ''            \<newline>'' @
         ''            <div class="navigation">\<newline>'' @
         ''                <button class="nav-btn" id="first-btn" onclick="goToSlide(0)">&lt;&lt;</button>\<newline>'' @
         ''                <button class="nav-btn" id="prev-btn" onclick="previousSlide()">&lt;</button>\<newline>'' @
         ''                <button class="nav-btn" id="next-btn" onclick="nextSlide()">&gt;</button>\<newline>'' @
         ''                <button class="nav-btn" id="last-btn" onclick="goToSlide('' @
         str_int (int (length slides) - 1) @ nav_controls txt)\<close>

definition navigation_script :: "static_text \<Rightarrow> slide list \<Rightarrow> string \<Rightarrow> string \<Rightarrow> string" where
  \<open>navigation_script txt slides page_title dir_name =
     (let prefix = slides_path_prefix dir_name
      in json_dumps (map (\<lambda>s. prefix @ filename s) slides) @
         '';\<newline>'' @
         ''        const slideFilenames = '' @ json_dumps (map filename slides) @
         nav_script txt @ page_title @
         [CHR 0x27] @ ''\<newline>'' @
         ''                    })\<newline>'' @
         ''                });\<newline>'' @
         ''                \<newline>'' @
         ''                if (response.ok) {\<newline>'' @
         ''                    const blob = await response.blob();\<newline>'' @
         ''                    const url = window.URL.createObjectURL(blob);\<newline>'' @
         ''                    const a = document.createElement('' @ [CHR 0x27] @ ''a'' @ [CHR 0x27] @ '');\<newline>'' @
         ''                    a.href = url;\<newline>'' @
         ''                    a.download = '' @ [CHR 0x27] @
         py_replace '' '' ''_'' (py_lower page_title) @ nav_script_end txt)\<close>

definition create_navigation_html :: "static_text \<Rightarrow> slide list \<Rightarrow> string \<Rightarrow> string \<Rightarrow> string"
where
  "create_navigation_html txt slides page_title dir_name =
     navigation_top txt slides page_title dir_name @
     navigation_script txt slides page_title dir_name"

section \<open>The commands\<close>

text \<open>
  The commands create the slides directory when it is missing, list it and write files.
  What they find at the path of the directory is one of four things: nothing, where
  \<open>mkdir\<close> creates the directory or raises (\<open>FileNotFoundError\<close> when the parent is
  missing too, \<open>PermissionError\<close> when the parent cannot be written); something that is
  not a directory; a directory that \<open>os.listdir\<close> refuses to list, with the exception it
  raises; or a directory that can be listed.
\<close>

datatype dir_state =
    Missing "py_error option"  \<comment> \<open>\<open>None\<close>: \<open>mkdir\<close> succeeds; \<open>Some e\<close>: it raises \<open>e\<close>\<close>
  | NotADirectory
  | Unlistable py_error
  | Listable directory

definition mkdir_exist_ok :: "dir_state \<Rightarrow> py_error + dir_state" where
  \<comment> \<open>\<open>Path.mkdir(exist_ok=True)\<close>: the exception, or what is at the path afterwards\<close>
  "mkdir_exist_ok p =
     (case p of
        Missing None \<Rightarrow> Inr (Listable [])
      | Missing (Some e) \<Rightarrow> Inl e
      | NotADirectory \<Rightarrow> Inl FileExistsError
      | Unlistable e \<Rightarrow> Inr (Unlistable e)
      | Listable d \<Rightarrow> Inr (Listable d))"

definition os_listdir :: "dir_state \<Rightarrow> py_error + directory" where
  \<comment> \<open>\<open>os.listdir\<close>: the exception, or the entries\<close>
  "os_listdir p =
     (case p of
        Missing _ \<Rightarrow> Inl FileNotFoundError
      | NotADirectory \<Rightarrow> Inl NotADirectoryError
      | Unlistable e \<Rightarrow> Inl e
      | Listable d \<Rightarrow> Inr d)"

text \<open>
  Whether a file can be opened for writing is decided by the environment as well, here
  the function \<open>write_error\<close>: \<open>None\<close> where the file is opened and written, otherwise
  the exception that \<open>open\<close> raises (\<open>PermissionError\<close> in a directory that cannot be
  written, \<open>IsADirectoryError\<close> where the name is taken by a directory, and so on), which
  leaves the command. What a command that returns leaves behind is the files it wrote, in
  order, each with its text, and the messages it printed.
\<close>

type_synonym writes = "(location \<times> string) list"

record outcome =
  files_written :: writes
  printed :: "message list"

definition joinpath :: "string \<Rightarrow> location" where
  \<comment> \<open>\<open>slides_dir / filename\<close>\<close>
  "joinpath fname =
     (if CHR ''/'' \<in> set fname then InSubdirectory fname else InSlidesDir fname)"

definition write_to :: "directory \<Rightarrow> location \<times> string \<Rightarrow> directory" where
  \<comment> \<open>the slides directory after one file has been written\<close>
  "write_to d w =
     (case fst w of
        InSlidesDir name \<Rightarrow> AList.update name (Inr (snd w)) d
      | InSubdirectory p \<Rightarrow> d
      | Elsewhere p \<Rightarrow> d)"

definition apply_writes :: "writes \<Rightarrow> directory \<Rightarrow> directory" where
  "apply_writes ws d = foldl write_to d ws"

subsection \<open>Sample slides\<close>

definition sample_slides :: "static_text \<Rightarrow> (string \<times> string \<times> string option \<times> string) list" where
  \<comment> \<open>number, title, section and content of the three samples\<close>
  "sample_slides txt =
     [(''001'', ''Introduction to Prefect'', None, content_001 txt),
      (''002'', ''Quick Setup'', None, content_002 txt),
      (''011'', ''Prefect vs Airflow'', Some ''Appendix'', content_011 txt)]"

fun create_sample_loop ::
  "static_text \<Rightarrow> (location \<Rightarrow> py_error option) \<Rightarrow>
   (string \<times> string \<times> string option \<times> string) list \<Rightarrow>
   writes \<times> message list \<Rightarrow> py_error + writes \<times> message list"
where
  "create_sample_loop txt write_error [] st = Inr st"
| "create_sample_loop txt write_error ((num, ttl, sect, content) # rest) (written, out) =
     (let fname = slide_filename num ttl;
          filepath = joinpath fname;
          html_content = create_slide_template txt (num @ '' - '' @ ttl) content sect
      in case write_error filepath of
           Some e \<Rightarrow> Inl e
         | None \<Rightarrow>
             create_sample_loop txt write_error rest
               (written @ [(filepath, html_content)], out @ [CreatedSampleSlide fname]))"

definition create_sample_slides ::
  "static_text \<Rightarrow> (location \<Rightarrow> py_error option) \<Rightarrow> py_error + writes \<times> message list"
where
  "create_sample_slides txt write_error =
     create_sample_loop txt write_error (sample_slides txt) ([], [])"

subsection \<open>Generating the navigation\<close>

fun count_sections :: "slide list \<Rightarrow> (string \<times> nat) list \<Rightarrow> (string \<times> nat) list" where
  \<comment> \<open>\<open>sections[section] = sections.get(section, 0) + 1\<close> for each slide\<close>
  "count_sections [] sections = sections"
| "count_sections (s # rest) sections =
     count_sections rest
       (AList.update (section s)
          ((case map_of sections (section s) of None \<Rightarrow> 0 | Some n \<Rightarrow> n) + 1) sections)"

text \<open>
  The body of the command, as it runs once the command line has been read. An exception
  of \<open>mkdir\<close>, of \<open>os.listdir\<close> or of \<open>open\<close> is caught nowhere and leaves the command;
  what had been printed before is then not part of the result. Once the directory has
  been listed, discovery lists the same directory again and finds it as it was left.
\<close>

definition generate_navigation ::
  "static_text \<Rightarrow> (location \<Rightarrow> py_error option) \<Rightarrow> string \<Rightarrow> dir_state \<Rightarrow> string \<Rightarrow>
   string option \<Rightarrow> bool \<Rightarrow> bool \<Rightarrow> bool \<Rightarrow> py_error + outcome"
where
  \<comment> \<open>\<open>dir_name\<close> is \<open>slides_dir.name\<close>\<close>
  "generate_navigation txt write_error dir_name slides_dir page_title output
     create_samples metadata verbose =
     (let out_file = (case output of None \<Rightarrow> InSlidesDir ''index.html'' | Some p \<Rightarrow> Elsewhere p)
      in case mkdir_exist_ok slides_dir of
           Inl e \<Rightarrow> Inl e
         | Inr existing_dir \<Rightarrow>
      (let out0 = (if verbose then [LookingForSlides, PageTitle page_title, OutputFile out_file]
                   else [])
       in case os_listdir existing_dir of
            Inl e \<Rightarrow> Inl e
          | Inr d0 \<Rightarrow>
      (let existing_slides = html_files d0
       in case (if existing_slides = [] \<and> create_samples
                then (case create_sample_slides txt write_error of
                        Inl e \<Rightarrow> Inl e
                      | Inr (w, m) \<Rightarrow> Inr (w, out0 @ [CreatingSampleSlides] @ m))
                else Inr ([], out0)) of
            Inl e \<Rightarrow> Inl e
          | Inr (written1, out1) \<Rightarrow>
              (let (slides, out2) = discover_slides (Some (apply_writes written1 d0))
               in if slides = []
                  then Inr \<lparr>files_written = written1,
                            printed = out1 @ out2 @ [NoValidSlidesFound, ExpectedPattern]\<rparr>
                  else
                    (let out3 =
                           (if verbose
                            then DiscoveredSlides (length slides) #
                                 map (\<lambda>s. DiscoveredSlide (number s) (title s) (section s)) slides
                            else []);
                         navigation_html = create_navigation_html txt slides page_title dir_name;
                         meta_file = InSlidesDir ''slides_metadata.json''
                     in case write_error out_file of
                          Some e \<Rightarrow> Inl e
                        | None \<Rightarrow>
                     (case (if metadata then write_error meta_file else None) of
                          Some e \<Rightarrow> Inl e
                        | None \<Rightarrow>
                          Inr \<lparr>files_written =
                                  written1 @ [(out_file, navigation_html)] @
                                  (if metadata then [(meta_file, metadata_json slides)] else []),
                                printed =
                                  out1 @ out2 @ out3 @ [GeneratedNavigation out_file] @
                                  (if metadata then [SavedMetadata meta_file] else []) @
                                  [Success out_file, FoundSlidesTotal (length slides)] @
                                  map (\<lambda>(sect, n). SectionCount sect n)
                                    (count_sections slides [])\<rparr>))))))"

subsection \<open>Creating a slide\<close>

text \<open>
  \<open>int(number)\<close> on an arbitrary string: white space around, an optional sign, then
  decimal digits, where single underscores may stand between digits. Around the number
  \<open>int\<close> accepts fewer characters than \<open>\s\<close>. A string of more digits than
  \<open>sys.int_max_str_digits\<close>, 4300 unless the interpreter is told otherwise, is refused
  like a malformed one.
\<close>

definition is_int_space :: "char \<Rightarrow> bool" where
  "is_int_space c \<longleftrightarrow> c \<in> set [CHR 0x09, CHR 0x0A, CHR 0x0B, CHR 0x0C, CHR 0x0D,
     CHR 0x20, CHR 0x85, CHR 0xA0]"

fun digits_ok :: "string \<Rightarrow> bool" where
  "digits_ok [] = False"
| "digits_ok [c] = is_digit c"
| "digits_ok (c # u # cs) =
     (is_digit c \<and> (if u = CHR ''_'' then digits_ok cs else digits_ok (u # cs)))"

definition int_max_str_digits :: nat where
  "int_max_str_digits = 4300"

definition py_int :: "string \<Rightarrow> int option" where
  \<comment> \<open>\<open>None\<close>: \<open>ValueError\<close>\<close>
  "py_int s =
     (let t = rev (dropWhile is_int_space (rev (dropWhile is_int_space s)));
          negative = (t \<noteq> [] \<and> hd t = CHR ''-'');
          body = (if t \<noteq> [] \<and> (hd t = CHR ''-'' \<or> hd t = CHR ''+'') then tl t else t);
          digits = filter (\<lambda>c. c \<noteq> CHR ''_'') body
      in if digits_ok body \<and> length digits \<le> int_max_str_digits
         then Some ((if negative then - 1 else 1) * int_of_digits digits)
         else None)"

text \<open>
  \<open>create_slide\<close> receives the title, what reading the content file gives, the ordinal as
  the string given on the command line, the section and what is at the path of the output
  directory. Opening a name with a null character raises \<open>ValueError\<close>. The result is the
  exception that leaves the function, or the file written and the message.
\<close>

definition create_slide ::
  "static_text \<Rightarrow> (location \<Rightarrow> py_error option) \<Rightarrow> string \<Rightarrow> py_error + string \<Rightarrow> string \<Rightarrow>
   string option \<Rightarrow> dir_state \<Rightarrow> py_error + outcome"
where
  "create_slide txt write_error ttl content_file num sect output_dir =
     (case content_file of
        Inl e \<Rightarrow> Inl e
      | Inr content \<Rightarrow>
     (case py_int num of
        None \<Rightarrow> Inl ValueError
      | Some n \<Rightarrow>
          (let num' = format_03d n;
               fname = slide_filename num' ttl
           in case mkdir_exist_ok output_dir of
                Inl e \<Rightarrow> Inl e
              | Inr existing_dir \<Rightarrow>
          (let html_content = create_slide_template txt (num' @ '' - '' @ ttl) content sect;
               filepath = joinpath fname
           in if CHR 0x00 \<in> set fname then Inl ValueError
              else case write_error filepath of
                     Some e \<Rightarrow> Inl e
                   | None \<Rightarrow>
                       Inr \<lparr>files_written = [(filepath, html_content)],
                            printed = [CreatedSlide filepath]\<rparr>))))"

section \<open>Notions of the specification\<close>


text \<open>A directory for the examples: slides out of order, two unreadable files, other files.\<close>

definition example_dir :: directory where
  "example_dir =
     [(''011-compare.html'', Inr ''<h1>Appendix: comparison</h1>''),
      (''notes.html'', Inr ''<p>notes</p>''),
      (''020-locked.html'', Inl PermissionError),
      (''001-intro.html'', Inr ''<title>001 - Intro</title><h1>Welcome</h1>''),
      (''005-broken.html'', Inl UnicodeDecodeError),
      (''index.html'', Inr ''<html></html>'')]"





text \<open>
  An instance of the static text for the closed examples, each long literal cut down to a
  short stand-in. The properties below hold for every static text.
\<close>

definition stand_in_text :: static_text where
  \<open>stand_in_text =
     \<lparr>base_styles = ''<style></style>'',
      content_001 = ''<h1>Prefect</h1>'',
      content_002 = ''<h1>Quick Setup</h1>'',
      content_011 = ''<h1>Prefect vs Apache Airflow</h1>'',
      nav_styles = ''</title><style></style></head><body><h2>'',
      nav_controls = '')">&gt;&gt;</button><script>const slides = '',
      nav_script = '';let currentSlideIndex = 0; title: '' @ [CHR 0x27],
      nav_script_end = ''_slides.pdf'' @ [CHR 0x27] @ '';</script></body></html>''\<rparr>\<close>


section \<open>Properties of slide discovery\<close>

subsection \<open>The loop and the pattern\<close>

lemma discover_loop_concat:
  "discover_loop d fs (slides, out) =
     (slides @ concat (map (\<lambda>f. fst (discover_file d f)) fs),
      out @ concat (map (\<lambda>f. snd (discover_file d f)) fs))"
  by (induction fs arbitrary: slides out) simp_all

lemma endswith_iff: "endswith s suf \<longleftrightarrow> (\<exists>p. s = p @ suf)"
proof
  assume "endswith s suf"
  then have "s = take (length s - length suf) s @ suf"
    unfolding endswith_def by (metis append_take_drop_id)
  then show "\<exists>p. s = p @ suf" ..
next
  assume "\<exists>p. s = p @ suf"
  then show "endswith s suf" unfolding endswith_def by auto
qed

lemma slide_pattern_match_html:
  assumes "endswith f ''.html''"
  shows "slide_pattern_match f =
           (if is_slide_name f then Some (take 3 f, drop 4 (take (length f - 5) f)) else None)"
proof -
  from assms obtain p where "f = p @ ''.html''" unfolding endswith_iff ..
  then have "f \<noteq> []" "last f \<noteq> newline" by simp_all
  then show ?thesis
    unfolding slide_pattern_match_def is_slide_name_def by (simp add: Let_def)
qed

lemma is_slide_name_html: "is_slide_name f \<Longrightarrow> endswith f ''.html'' \<and> f \<noteq> ''index.html''"
  unfolding is_slide_name_def by (auto simp: is_digit_def)

lemma discover_slides_Some:
  "discover_slides (Some d) =
     (concat (map (\<lambda>f. fst (discover_file d f)) (sort (html_files d))),
      if html_files d = [] then [NoHtmlFilesFound]
      else concat (map (\<lambda>f. snd (discover_file d f)) (sort (html_files d))))"
  unfolding discover_slides_def by (simp add: discover_loop_concat)

lemma discover_file_slide_name:
  assumes "is_slide_name f"
  shows "fst (discover_file d f) =
    [\<lparr>number = take 3 f,
      title = (case read_text d f of
                 Inr content \<Rightarrow>
                   (case title_search content of
                      Some t \<Rightarrow> t
                    | None \<Rightarrow> slug_title (drop 4 (take (length f - 5) f)))
               | Inl e \<Rightarrow> slug_title (drop 4 (take (length f - 5) f))),
      filename = f,
      section = (case read_text d f of
                   Inr content \<Rightarrow> if str_in ''Appendix'' content then ''Appendix'' else ''Main''
                 | Inl e \<Rightarrow> if int_of_digits (take 3 f) > 10 then ''Appendix'' else ''Main'')\<rparr>]"
  using assms is_slide_name_html[OF assms]
  unfolding discover_file_def by (simp add: slide_pattern_match_html split: sum.split)

lemma discover_file_other:
  assumes "endswith f ''.html''" "\<not> is_slide_name f"
  shows "fst (discover_file d f) = []"
  using assms unfolding discover_file_def by (simp add: slide_pattern_match_html)

lemma concat_map_filter_singleton:
  assumes "\<And>x. x \<in> set xs \<Longrightarrow> g x = (if P x then [h x] else [])"
  shows "concat (map g xs) = map h (filter P xs)"
  using assms by (induction xs) simp_all

lemma slide_names_html_files: "filter is_slide_name (html_files d) = filter is_slide_name (listdir d)"
  unfolding html_files_def by (auto intro: filter_cong dest: is_slide_name_html)

lemma discover_slides_map:
  "fst (discover_slides (Some d)) =
     map (\<lambda>f. hd (fst (discover_file d f))) (filter is_slide_name (sort (listdir d)))"
proof -
  have "concat (map (\<lambda>f. fst (discover_file d f)) (sort (html_files d))) =
        map (\<lambda>f. hd (fst (discover_file d f))) (filter is_slide_name (sort (html_files d)))"
  proof (rule concat_map_filter_singleton)
    fix f assume "f \<in> set (sort (html_files d))"
    then have "endswith f ''.html''" by (simp add: html_files_def)
    then show "fst (discover_file d f) = (if is_slide_name f then [hd (fst (discover_file d f))] else [])"
      by (simp add: discover_file_slide_name discover_file_other)
  qed
  then show ?thesis
    by (simp add: discover_slides_Some filter_sort slide_names_html_files)
qed









subsection \<open>Substrings and the title marker\<close>

lemma startswith_iff: "startswith s p \<longleftrightarrow> (\<exists>q. s = p @ q)"
  unfolding startswith_def
  by (metis append_eq_conv_conj append_take_drop_id)

lemma str_in_iff: "str_in sub s \<longleftrightarrow> (\<exists>pre post. s = pre @ sub @ post)"
proof (induction s)
  case Nil
  then show ?case by auto
next
  case (Cons c cs)
  show ?case
  proof
    assume "str_in sub (c # cs)"
    then consider "startswith (c # cs) sub" | "str_in sub cs" by auto
    then show "\<exists>pre post. c # cs = pre @ sub @ post"
    proof cases
      case 1
      then obtain q where "c # cs = sub @ q" unfolding startswith_iff ..
      then have "c # cs = [] @ sub @ q" by simp
      then show ?thesis by blast
    next
      case 2
      with Cons.IH obtain pre post where "cs = pre @ sub @ post" by blast
      then have "c # cs = (c # pre) @ sub @ post" by simp
      then show ?thesis by blast
    qed
  next
    assume "\<exists>pre post. c # cs = pre @ sub @ post"
    then obtain pre post where eq: "c # cs = pre @ sub @ post" by blast
    show "str_in sub (c # cs)"
    proof (cases pre)
      case Nil
      with eq have "startswith (c # cs) sub" unfolding startswith_iff by auto
      then show ?thesis by simp
    next
      case (Cons p pre')
      with eq have "cs = pre' @ sub @ post" by simp
      with Cons.IH have "str_in sub cs" by blast
      then show ?thesis by simp
    qed
  qed
qed










subsection \<open>The discovered slides\<close>

lemma discover_slides_mem:
  "s \<in> set (fst (discover_slides (Some d))) \<longleftrightarrow>
     is_slide_name (filename s) \<and> filename s \<in> set (listdir d) \<and>
     fst (discover_file d (filename s)) = [s]"
proof -
  have "\<And>f. is_slide_name f \<Longrightarrow> filename (hd (fst (discover_file d f))) = f"
    by (simp add: discover_file_slide_name)
  moreover have "\<And>f. is_slide_name f \<Longrightarrow> fst (discover_file d f) = [hd (fst (discover_file d f))]"
    by (simp add: discover_file_slide_name)
  ultimately show ?thesis
    unfolding discover_slides_map by (auto simp: image_iff)
qed

lemma discover_file_fields:
  assumes "is_slide_name f" "fst (discover_file d f) = [s]"
  shows "number s = take 3 f" and "filename s = f"
    and "title s = (case read_text d f of
                 Inr content \<Rightarrow>
                   (case title_search content of
                      Some t \<Rightarrow> t
                    | None \<Rightarrow> slug_title (drop 4 (take (length f - 5) f)))
               | Inl e \<Rightarrow> slug_title (drop 4 (take (length f - 5) f)))"
    and "section s = (case read_text d f of
                   Inr content \<Rightarrow> if str_in ''Appendix'' content then ''Appendix'' else ''Main''
                 | Inl e \<Rightarrow> if int_of_digits (take 3 f) > 10 then ''Appendix'' else ''Main'')"
proof -
  from assms(2) have s: "s = hd (fst (discover_file d f))" by simp
  show "number s = take 3 f" "filename s = f"
    "title s = (case read_text d f of
                 Inr content \<Rightarrow>
                   (case title_search content of
                      Some t \<Rightarrow> t
                    | None \<Rightarrow> slug_title (drop 4 (take (length f - 5) f)))
               | Inl e \<Rightarrow> slug_title (drop 4 (take (length f - 5) f)))"
    "section s = (case read_text d f of
                   Inr content \<Rightarrow> if str_in ''Appendix'' content then ''Appendix'' else ''Main''
                 | Inl e \<Rightarrow> if int_of_digits (take 3 f) > 10 then ''Appendix'' else ''Main'')"
    unfolding s discover_file_slide_name[OF assms(1)] by simp_all
qed


lemma discover_slides_sections:
  "s \<in> set (fst (discover_slides dir)) \<Longrightarrow> section s = ''Appendix'' \<or> section s = ''Main''"
proof (cases dir)
  case None
  assume "s \<in> set (fst (discover_slides dir))"
  with None show ?thesis by (simp add: discover_slides_def)
next
  case (Some d)
  assume "s \<in> set (fst (discover_slides dir))"
  with Some have "is_slide_name (filename s)" "fst (discover_file d (filename s)) = [s]"
    by (simp_all add: discover_slides_mem)
  from discover_file_fields(4)[OF this] show ?thesis
    by (auto split: sum.splits)
qed

text \<open>
  Claim C2. The section of every discovered slide is \<open>Appendix\<close> or \<open>Main\<close>. A file with
  a well-formed name that can be read yields an entry, and the section of that entry is
  \<open>Appendix\<close> if the text \<open>Appendix\<close> occurs somewhere in the content and \<open>Main\<close> if it
  does not.
\<close>

theorem discover_slides_section_keyword:
  "(\<forall>s \<in> set (fst (discover_slides dir)). section s = ''Appendix'' \<or> section s = ''Main'') \<and>
   (f \<in> set (listdir d) \<and> is_slide_name f \<and> read_text d f = Inr content \<longrightarrow>
      (\<exists>s \<in> set (fst (discover_slides (Some d))). filename s = f) \<and>
      (\<forall>s \<in> set (fst (discover_slides (Some d))). filename s = f \<longrightarrow>
         section s = (if \<exists>pre post. content = pre @ ''Appendix'' @ post
                      then ''Appendix'' else ''Main'')))"
proof (intro conjI ballI impI)
  fix s assume "s \<in> set (fst (discover_slides dir))"
  then show "section s = ''Appendix'' \<or> section s = ''Main''" by (rule discover_slides_sections)
next
  assume h: "f \<in> set (listdir d) \<and> is_slide_name f \<and> read_text d f = Inr content"
  let ?s = "hd (fst (discover_file d f))"
  from h have "?s \<in> set (fst (discover_slides (Some d)))" "filename ?s = f"
    by (simp_all add: discover_slides_mem discover_file_slide_name)
  then show "\<exists>s \<in> set (fst (discover_slides (Some d))). filename s = f" by blast
next
  fix s
  assume h: "f \<in> set (listdir d) \<and> is_slide_name f \<and> read_text d f = Inr content"
    and s: "s \<in> set (fst (discover_slides (Some d)))" "filename s = f"
  from s have "fst (discover_file d f) = [s]" by (simp add: discover_slides_mem)
  with h have "section s = (if str_in ''Appendix'' content then ''Appendix'' else ''Main'')"
    using discover_file_fields(4)[of f d s] by simp
  then show "section s = (if \<exists>pre post. content = pre @ ''Appendix'' @ post
                      then ''Appendix'' else ''Main'')"
    unfolding str_in_iff .
qed

theorem discover_slides_section_keyword_witness:
  "''011-compare.html'' \<in> set (listdir example_dir) \<and> is_slide_name ''011-compare.html'' \<and>
   read_text example_dir ''011-compare.html'' = Inr ''<h1>Appendix: comparison</h1>'' \<and>
   (\<exists>pre post. ''<h1>Appendix: comparison</h1>'' = pre @ ''Appendix'' @ post) \<and>
   (\<exists>s \<in> set (fst (discover_slides (Some example_dir))).
      filename s = ''011-compare.html'' \<and> section s = ''Appendix'')"
proof -
  have h: "''011-compare.html'' \<in> set (listdir example_dir) \<and> is_slide_name ''011-compare.html'' \<and>
     read_text example_dir ''011-compare.html'' = Inr ''<h1>Appendix: comparison</h1>''"
    by code_simp
  have k: "\<exists>pre post. ''<h1>Appendix: comparison</h1>'' = pre @ ''Appendix'' @ post"
    by (rule exI[of _ "''<h1>''"], rule exI[of _ "'': comparison</h1>''"]) simp
  show ?thesis
    using discover_slides_section_keyword
      [of "Some example_dir" "''011-compare.html''" example_dir "''<h1>Appendix: comparison</h1>''"]
      h k
    by auto
qed

text \<open>
  Claim C3. A file with a well-formed name whose reading raises an exception still yields
  an entry, and a warning is printed. The number of that entry is the prefix of the name,
  its title is derived from the slug of the name, and its section is \<open>Appendix\<close> if and only
  if the number, as an integer, exceeds 10, and \<open>Main\<close> otherwise.
\<close>

theorem discover_slides_unreadable:
  "f \<in> set (listdir d) \<and> is_slide_name f \<and> read_text d f = Inl e \<longrightarrow>
     (\<exists>s \<in> set (fst (discover_slides (Some d))). filename s = f) \<and>
     (\<forall>s \<in> set (fst (discover_slides (Some d))). filename s = f \<longrightarrow>
        number s = take 3 f \<and>
        title s = slug_title (drop 4 (take (length f - 5) f)) \<and>
        (section s = ''Appendix'' \<longleftrightarrow> int_of_digits (number s) > 10) \<and>
        (section s = ''Main'' \<longleftrightarrow> \<not> int_of_digits (number s) > 10)) \<and>
     CouldNotRead f e \<in> set (snd (discover_slides (Some d)))"
proof (intro conjI ballI impI)
  assume h: "f \<in> set (listdir d) \<and> is_slide_name f \<and> read_text d f = Inl e"
  let ?s = "hd (fst (discover_file d f))"
  from h have "?s \<in> set (fst (discover_slides (Some d)))" "filename ?s = f"
    by (simp_all add: discover_slides_mem discover_file_slide_name)
  then show "\<exists>s \<in> set (fst (discover_slides (Some d))). filename s = f" by blast
  from h have "f \<in> set (sort (html_files d))"
    by (simp add: html_files_def is_slide_name_html)
  moreover from h have "html_files d \<noteq> []"
    by (auto simp: html_files_def filter_empty_conv dest: is_slide_name_html)
  moreover from h have "snd (discover_file d f) = [CouldNotRead f e]"
    using is_slide_name_html[of f]
    by (simp add: discover_file_def slide_pattern_match_html)
  ultimately show "CouldNotRead f e \<in> set (snd (discover_slides (Some d)))"
    by (auto simp: discover_slides_Some intro!: bexI[of _ f])
next
  fix s
  assume h: "f \<in> set (listdir d) \<and> is_slide_name f \<and> read_text d f = Inl e"
    and s: "s \<in> set (fst (discover_slides (Some d)))" "filename s = f"
  from s have "fst (discover_file d f) = [s]" by (simp add: discover_slides_mem)
  with h have eq: "number s = take 3 f"
      "title s = slug_title (drop 4 (take (length f - 5) f))"
      "section s = (if int_of_digits (take 3 f) > 10 then ''Appendix'' else ''Main'')"
    using discover_file_fields[of f d s] by simp_all
  show "number s = take 3 f" "title s = slug_title (drop 4 (take (length f - 5) f))"
    "section s = ''Appendix'' \<longleftrightarrow> int_of_digits (number s) > 10"
    "section s = ''Main'' \<longleftrightarrow> \<not> int_of_digits (number s) > 10"
    by (simp_all add: eq)
qed

theorem discover_slides_unreadable_witness:
  "''020-locked.html'' \<in> set (listdir example_dir) \<and> is_slide_name ''020-locked.html'' \<and>
   read_text example_dir ''020-locked.html'' = Inl PermissionError \<and>
   int_of_digits ''020'' > 10 \<and>
   (\<exists>s \<in> set (fst (discover_slides (Some example_dir))).
      filename s = ''020-locked.html'' \<and>
      number s = ''020'' \<and> title s = ''Locked'' \<and> section s = ''Appendix'') \<and>
   ''005-broken.html'' \<in> set (listdir example_dir) \<and> is_slide_name ''005-broken.html'' \<and>
   read_text example_dir ''005-broken.html'' = Inl UnicodeDecodeError \<and>
   \<not> int_of_digits ''005'' > 10 \<and>
   (\<exists>s \<in> set (fst (discover_slides (Some example_dir))).
      filename s = ''005-broken.html'' \<and>
      number s = ''005'' \<and> title s = ''Broken'' \<and> section s = ''Main'')"
proof -
  let ?S = "set (fst (discover_slides (Some example_dir)))"
  have h: "''020-locked.html'' \<in> set (listdir example_dir) \<and> is_slide_name ''020-locked.html'' \<and>
     read_text example_dir ''020-locked.html'' = Inl PermissionError"
    by code_simp
  have k: "''005-broken.html'' \<in> set (listdir example_dir) \<and> is_slide_name ''005-broken.html'' \<and>
     read_text example_dir ''005-broken.html'' = Inl UnicodeDecodeError"
    by code_simp
  have v: "take 3 ''020-locked.html'' = ''020''" "int_of_digits ''020'' > 10"
      "slug_title (drop 4 (take (length ''020-locked.html'' - 5) ''020-locked.html'')) = ''Locked''"
    by code_simp+
  have w: "take 3 ''005-broken.html'' = ''005''" "\<not> int_of_digits ''005'' > 10"
      "slug_title (drop 4 (take (length ''005-broken.html'' - 5) ''005-broken.html'')) = ''Broken''"
    by code_simp+
  from discover_slides_unreadable [of "''020-locked.html''" example_dir PermissionError] h
  obtain s where s: "s \<in> ?S" "filename s = ''020-locked.html''"
      "number s = take 3 ''020-locked.html''"
      "title s = slug_title (drop 4 (take (length ''020-locked.html'' - 5) ''020-locked.html''))"
      "section s = ''Appendix'' \<longleftrightarrow> int_of_digits (number s) > 10"
    by blast
  from s(3,4,5) have "number s = ''020''" "title s = ''Locked''" "section s = ''Appendix''"
    unfolding v by (simp_all add: v(2))
  with s(1,2) have a: "\<exists>s \<in> ?S. filename s = ''020-locked.html'' \<and>
      number s = ''020'' \<and> title s = ''Locked'' \<and> section s = ''Appendix''"
    by blast
  from discover_slides_unreadable [of "''005-broken.html''" example_dir UnicodeDecodeError] k
  obtain t where t: "t \<in> ?S" "filename t = ''005-broken.html''"
      "number t = take 3 ''005-broken.html''"
      "title t = slug_title (drop 4 (take (length ''005-broken.html'' - 5) ''005-broken.html''))"
      "section t = ''Main'' \<longleftrightarrow> \<not> int_of_digits (number t) > 10"
    by blast
  from t(3,4,5) have "number t = ''005''" "title t = ''Broken''" "section t = ''Main''"
    unfolding w by (simp_all add: w(2))
  with t(1,2) have b: "\<exists>s \<in> ?S. filename s = ''005-broken.html'' \<and>
      number s = ''005'' \<and> title s = ''Broken'' \<and> section s = ''Main''"
    by blast
  from h k v(2) w(2) a b show ?thesis by blast
qed



section \<open>Properties of the navigation page\<close>
















section \<open>Properties of the commands\<close>

subsection \<open>Directories without slides\<close>

lemma concat_map_cong:
  "(\<And>x. x \<in> set xs \<Longrightarrow> g x = h x) \<Longrightarrow> concat (map g xs) = concat (map h xs)"
  by (induction xs) simp_all

lemma discover_slides_no_names:
  assumes "filter is_slide_name (listdir d) = []"
  shows "discover_slides (Some d) =
           ([], if html_files d = [] then [NoHtmlFilesFound]
                else map SkippingFile (sort (html_files d)))"
proof -
  let ?files = "sort (html_files d)"
  have skipped: "discover_file d f = ([], [SkippingFile f])" if "f \<in> set ?files" for f
  proof -
    from that have "endswith f ''.html''" by (simp add: html_files_def)
    moreover from that assms have "\<not> is_slide_name f"
      by (auto simp: html_files_def filter_empty_conv)
    ultimately show ?thesis by (simp add: discover_file_def slide_pattern_match_html)
  qed
  have "concat (map (\<lambda>f. fst (discover_file d f)) ?files) = concat (map (\<lambda>f. []) ?files)"
    by (rule concat_map_cong) (simp add: skipped)
  moreover
  have "concat (map (\<lambda>f. snd (discover_file d f)) ?files) =
        concat (map (\<lambda>f. [SkippingFile f]) ?files)"
    by (rule concat_map_cong) (simp add: skipped)
  ultimately show ?thesis
    unfolding discover_slides_Some by simp
qed


lemma sample_filenames:
  "slide_filename ''001'' ''Introduction to Prefect'' = ''001-introduction-to-prefect.html''"
  "slide_filename ''002'' ''Quick Setup'' = ''002-quick-setup.html''"
  "slide_filename ''011'' ''Prefect vs Airflow'' = ''011-prefect-vs-airflow.html''"
  by code_simp+

lemma sample_names_well_formed:
  "is_slide_name ''001-introduction-to-prefect.html''"
  "is_slide_name ''002-quick-setup.html''"
  "is_slide_name ''011-prefect-vs-airflow.html''"
  by code_simp+

lemma sample_paths:
  "joinpath ''001-introduction-to-prefect.html'' = InSlidesDir ''001-introduction-to-prefect.html''"
  "joinpath ''002-quick-setup.html'' = InSlidesDir ''002-quick-setup.html''"
  "joinpath ''011-prefect-vs-airflow.html'' = InSlidesDir ''011-prefect-vs-airflow.html''"
  by code_simp+

lemma create_sample_loop_locations:
  "create_sample_loop txt write_error samples (written, out) = Inr (w, m) \<Longrightarrow>
     map fst w =
       map fst written @
       map (\<lambda>(num, ttl, sect, content). joinpath (slide_filename num ttl)) samples"
proof (induction samples arbitrary: written out)
  case Nil
  then show ?case by simp
next
  case (Cons sample samples)
  obtain num ttl sect content where sample: "sample = (num, ttl, sect, content)"
    by (cases sample) auto
  from Cons.prems have
    "create_sample_loop txt write_error samples
       (written @ [(joinpath (slide_filename num ttl),
                    create_slide_template txt (num @ '' - '' @ ttl) content sect)],
        out @ [CreatedSampleSlide (slide_filename num ttl)]) = Inr (w, m)"
    unfolding sample by (simp add: Let_def split: option.splits)
  from Cons.IH[OF this] show ?case unfolding sample by simp
qed

lemma create_sample_loop_writable:
  assumes "\<And>loc. write_error loc = None"
  shows "\<exists>w m. create_sample_loop txt write_error samples st = Inr (w, m)"
proof (induction samples arbitrary: st)
  case Nil
  then show ?case by (cases st) simp
next
  case (Cons sample samples)
  obtain num ttl sect content where sample: "sample = (num, ttl, sect, content)"
    by (cases sample) auto
  obtain written out where st: "st = (written, out)" by (cases st) auto
  show ?case unfolding sample st using Cons.IH by (simp add: assms Let_def)
qed

lemma create_sample_slides_locations:
  assumes "create_sample_slides txt write_error = Inr (w, m)"
  shows "map fst w = [InSlidesDir ''001-introduction-to-prefect.html'',
                      InSlidesDir ''002-quick-setup.html'',
                      InSlidesDir ''011-prefect-vs-airflow.html'']"
  using create_sample_loop_locations[OF assms[unfolded create_sample_slides_def]]
  by (simp add: sample_slides_def sample_filenames sample_paths)

lemma create_sample_slides_writable:
  assumes "\<And>loc. write_error loc = None"
  shows "\<exists>w m. create_sample_slides txt write_error = Inr (w, m)"
  unfolding create_sample_slides_def using assms by (rule create_sample_loop_writable)

lemma listdir_update:
  "set (listdir (AList.update k v d)) = insert k (set (listdir d))"
  unfolding listdir_def by (simp add: dom_update)

lemma listdir_write_to:
  "set (listdir d) \<subseteq> set (listdir (write_to d w))"
  "fst w = InSlidesDir name \<Longrightarrow> name \<in> set (listdir (write_to d w))"
  unfolding write_to_def by (auto simp: listdir_update split: location.splits)

lemma apply_writes_simps:
  "apply_writes [] d = d"
  "apply_writes (w # ws) d = apply_writes ws (write_to d w)"
  "apply_writes (ws @ ws') d = apply_writes ws' (apply_writes ws d)"
  unfolding apply_writes_def by simp_all

lemma listdir_apply_writes_mono:
  "set (listdir d) \<subseteq> set (listdir (apply_writes ws d))"
proof (induction ws arbitrary: d)
  case Nil
  then show ?case by (simp add: apply_writes_simps)
next
  case (Cons w ws)
  from listdir_write_to(1)[of d w] Cons[of "write_to d w"] show ?case
    unfolding apply_writes_simps by blast
qed

lemma listdir_apply_writes_written:
  "InSlidesDir name \<in> fst ` set ws \<Longrightarrow> name \<in> set (listdir (apply_writes ws d))"
proof (induction ws arbitrary: d)
  case Nil
  then show ?case by simp
next
  case (Cons w ws)
  show ?case
  proof (cases "fst w = InSlidesDir name")
    case True
    then have "name \<in> set (listdir (write_to d w))" by (rule listdir_write_to(2))
    with listdir_apply_writes_mono[of "write_to d w" ws] show ?thesis
      unfolding apply_writes_simps by blast
  next
    case False
    with Cons.prems have "InSlidesDir name \<in> fst ` set ws" by auto
    from Cons.IH[OF this, of "write_to d w"] show ?thesis
      unfolding apply_writes_simps .
  qed
qed

lemma discover_slides_nonempty:
  assumes "f \<in> set (listdir d)" "is_slide_name f"
  shows "fst (discover_slides (Some d)) \<noteq> []"
proof -
  from assms have "filter is_slide_name (sort (listdir d)) \<noteq> []"
    by (auto simp: filter_empty_conv)
  then show ?thesis unfolding discover_slides_map by simp
qed

lemma seeded_slides_nonempty:
  assumes "create_sample_slides txt write_error = Inr (w, m)"
  shows "fst (discover_slides (Some (apply_writes w d))) \<noteq> []"
proof -
  have "InSlidesDir ''001-introduction-to-prefect.html'' \<in> set (map fst w)"
    unfolding create_sample_slides_locations[OF assms] by simp
  then have "InSlidesDir ''001-introduction-to-prefect.html'' \<in> fst ` set w"
    by simp
  then have "''001-introduction-to-prefect.html'' \<in> set (listdir (apply_writes w d))"
    by (rule listdir_apply_writes_written)
  then show ?thesis using sample_names_well_formed(1) by (rule discover_slides_nonempty)
qed

lemma generate_navigation_found:
  assumes "(if html_files d = [] \<and> create_samples
            then (case create_sample_slides txt write_error of
                       Inl e \<Rightarrow> Inl e
                     | Inr (w, m) \<Rightarrow> Inr (w, out0 @ [CreatingSampleSlides] @ m))
            else Inr ([], out0)) = Inr (written1, out1)"
    and "out0 = (if verbose then [LookingForSlides, PageTitle page_title,
                    OutputFile (case output of None \<Rightarrow> InSlidesDir ''index.html''
                                | Some p \<Rightarrow> Elsewhere p)] else [])"
    and "discover_slides (Some (apply_writes written1 d)) = (slides, out2)"
    and "slides \<noteq> []"
    and "write_error (case output of None \<Rightarrow> InSlidesDir ''index.html'' | Some p \<Rightarrow> Elsewhere p)
           = None"
    and "metadata \<longrightarrow> write_error (InSlidesDir ''slides_metadata.json'') = None"
  shows "\<exists>r. generate_navigation txt write_error dir_name (Listable d) page_title output
           create_samples metadata verbose = Inr r \<and>
         files_written r =
           written1 @
           [(case output of None \<Rightarrow> InSlidesDir ''index.html'' | Some p \<Rightarrow> Elsewhere p,
             create_navigation_html txt slides page_title dir_name)] @
           (if metadata then [(InSlidesDir ''slides_metadata.json'', metadata_json slides)]
            else [])"
  unfolding generate_navigation_def mkdir_exist_ok_def os_listdir_def Let_def
    dir_state.case sum.case assms(2)[symmetric] assms(1) prod.case assms(3)
  using assms(4,5,6) by simp

text \<open>
  Claim C4, as amended. For every directory that can be listed and holds no file name of
  the form \<open>NNN-slug.html\<close>, when sample slides are not asked for or the directory holds
  some \<open>.html\<close> file other than \<open>index.html\<close>, the command returns, whatever the
  environment says about writing files: it writes no file and prints, after the messages
  of discovery, that no valid slides were found. A missing directory that \<open>mkdir\<close> can
  create is treated as an empty one. Where \<open>mkdir\<close> fails, where the path is not a
  directory, or where the directory cannot be listed, the exception of \<open>mkdir\<close> or of
  \<open>os.listdir\<close> leaves the command instead, and no message of an empty result is printed.
  The claim as stated fails where the directory holds no such \<open>.html\<close> file and
  \<open>--create-samples\<close> is given: the command then writes the three sample slides and,
  from them, the navigation page.
\<close>

theorem generate_navigation_no_slides:
  "(filter is_slide_name (listdir d) = [] \<and> (\<not> create_samples \<or> html_files d \<noteq> []) \<longrightarrow>
     generate_navigation txt write_error dir_name (Listable d) page_title output
       create_samples metadata verbose =
       Inr \<lparr>files_written = [],
            printed =
              (if verbose
               then [LookingForSlides, PageTitle page_title,
                     OutputFile (case output of None \<Rightarrow> InSlidesDir ''index.html''
                                 | Some p \<Rightarrow> Elsewhere p)]
               else []) @
              (if html_files d = [] then [NoHtmlFilesFound]
               else map SkippingFile (sort (html_files d))) @
              [NoValidSlidesFound, ExpectedPattern]\<rparr>) \<and>
   generate_navigation txt write_error dir_name (Missing None) page_title output
       create_samples metadata verbose =
     generate_navigation txt write_error dir_name (Listable []) page_title output
       create_samples metadata verbose \<and>
   generate_navigation txt write_error dir_name (Missing (Some e)) page_title output
       create_samples metadata verbose = Inl e \<and>
   generate_navigation txt write_error dir_name NotADirectory page_title output
       create_samples metadata verbose = Inl FileExistsError \<and>
   generate_navigation txt write_error dir_name (Unlistable e) page_title output
       create_samples metadata verbose = Inl e"
proof (intro conjI impI)
  assume h: "filter is_slide_name (listdir d) = [] \<and> (\<not> create_samples \<or> html_files d \<noteq> [])"
  then have seed: "\<not> (html_files d = [] \<and> create_samples)" by blast
  from h have slides: "discover_slides (Some d) =
           ([], if html_files d = [] then [NoHtmlFilesFound]
                else map SkippingFile (sort (html_files d)))"
    by (simp add: discover_slides_no_names)
  show "generate_navigation txt write_error dir_name (Listable d) page_title output
       create_samples metadata verbose =
       Inr \<lparr>files_written = [],
            printed =
              (if verbose
               then [LookingForSlides, PageTitle page_title,
                     OutputFile (case output of None \<Rightarrow> InSlidesDir ''index.html''
                                 | Some p \<Rightarrow> Elsewhere p)]
               else []) @
              (if html_files d = [] then [NoHtmlFilesFound]
               else map SkippingFile (sort (html_files d))) @
              [NoValidSlidesFound, ExpectedPattern]\<rparr>"
  proof (cases "html_files d = []")
    case True
    with seed have "\<not> create_samples" by simp
    with True slides show ?thesis
      unfolding generate_navigation_def mkdir_exist_ok_def os_listdir_def apply_writes_def
        Let_def by simp
  next
    case False
    with slides show ?thesis
      unfolding generate_navigation_def mkdir_exist_ok_def os_listdir_def apply_writes_def
        Let_def by simp
  qed
next
  show "generate_navigation txt write_error dir_name (Missing None) page_title output
       create_samples metadata verbose =
     generate_navigation txt write_error dir_name (Listable []) page_title output
       create_samples metadata verbose"
    unfolding generate_navigation_def mkdir_exist_ok_def by simp
next
  show "generate_navigation txt write_error dir_name (Missing (Some e)) page_title output
       create_samples metadata verbose = Inl e"
    unfolding generate_navigation_def mkdir_exist_ok_def by simp
next
  show "generate_navigation txt write_error dir_name NotADirectory page_title output
       create_samples metadata verbose = Inl FileExistsError"
    unfolding generate_navigation_def mkdir_exist_ok_def by simp
next
  show "generate_navigation txt write_error dir_name (Unlistable e) page_title output
       create_samples metadata verbose = Inl e"
    unfolding generate_navigation_def mkdir_exist_ok_def os_listdir_def Let_def by simp
qed

theorem generate_navigation_no_slides_witness:
  "filter is_slide_name (listdir [(''notes.html'', Inr ''<p>notes</p>'')]) = [] \<and>
   html_files [(''notes.html'', Inr ''<p>notes</p>'')] \<noteq> [] \<and>
   generate_navigation stand_in_text (\<lambda>loc. Some PermissionError) ''prefect_slides''
       (Listable [(''notes.html'', Inr ''<p>notes</p>'')]) ''Prefect Slides'' None
       True True False =
     Inr \<lparr>files_written = [],
          printed = [SkippingFile ''notes.html'', NoValidSlidesFound, ExpectedPattern]\<rparr> \<and>
   filter is_slide_name (listdir []) = [] \<and>
   generate_navigation stand_in_text (\<lambda>loc. Some PermissionError) ''prefect_slides''
       (Listable []) ''Prefect Slides'' None False False False =
     Inr \<lparr>files_written = [],
          printed = [NoHtmlFilesFound, NoValidSlidesFound, ExpectedPattern]\<rparr> \<and>
   generate_navigation stand_in_text (\<lambda>loc. None) ''prefect_slides''
       (Unlistable PermissionError) ''Prefect Slides'' None False False False =
     Inl PermissionError"
proof -
  have a: "filter is_slide_name (listdir [(''notes.html'', Inr ''<p>notes</p>'')]) = []"
    "html_files [(''notes.html'', Inr ''<p>notes</p>'')] = [''notes.html'']"
    "filter is_slide_name (listdir []) = []" "html_files [] = []"
    by code_simp+
  from generate_navigation_no_slides
    [of "[(''notes.html'', Inr ''<p>notes</p>'')]" True "stand_in_text"
       "\<lambda>loc. Some PermissionError" "''prefect_slides''" "''Prefect Slides''" None True False]
    generate_navigation_no_slides
    [of "[]" False "stand_in_text" "\<lambda>loc. Some PermissionError"
       "''prefect_slides''" "''Prefect Slides''" None False False]
    generate_navigation_no_slides
    [of "[]" False "stand_in_text" "\<lambda>loc. None"
       "''prefect_slides''" "''Prefect Slides''" None False False PermissionError]
    a
  show ?thesis by simp
qed

theorem generate_navigation_seeded_writes:
  "filter is_slide_name (listdir []) = [] \<and>
   map_sum id (\<lambda>r. map fst (files_written r))
     (generate_navigation stand_in_text (\<lambda>loc. None) ''prefect_slides'' (Listable [])
        ''Prefect Slides'' None True False False) =
     Inr [InSlidesDir ''001-introduction-to-prefect.html'',
          InSlidesDir ''002-quick-setup.html'',
          InSlidesDir ''011-prefect-vs-airflow.html'',
          InSlidesDir ''index.html'']"
proof -
  obtain w m where wm: "create_sample_slides stand_in_text (\<lambda>loc. None) = Inr (w, m)"
    using create_sample_slides_writable[of "\<lambda>loc. None" stand_in_text] by auto
  obtain slides out2 where s: "discover_slides (Some (apply_writes w [])) = (slides, out2)"
    by (cases "discover_slides (Some (apply_writes w []))") auto
  with seeded_slides_nonempty[OF wm, of "[]"] have ne: "slides \<noteq> []" by simp
  have seed: "(if html_files [] = [] \<and> True
            then (case create_sample_slides stand_in_text (\<lambda>loc. None) of
                       Inl e \<Rightarrow> Inl e
                     | Inr (w, m) \<Rightarrow> Inr (w, [] @ [CreatingSampleSlides] @ m))
            else Inr ([], [])) = Inr (w, [] @ [CreatingSampleSlides] @ m)"
    unfolding wm by (simp add: html_files_def listdir_def)
  have out0: "[] = (if False then [LookingForSlides, PageTitle ''Prefect Slides'',
                    OutputFile (case None of None \<Rightarrow> InSlidesDir ''index.html''
                                | Some p \<Rightarrow> Elsewhere p)] else [])"
    by simp
  from generate_navigation_found[OF seed out0 s ne, of False "''prefect_slides''"]
  obtain r where r: "generate_navigation stand_in_text (\<lambda>loc. None) ''prefect_slides''
        (Listable []) ''Prefect Slides'' None True False False = Inr r"
      "files_written r = w @ [(InSlidesDir ''index.html'',
          create_navigation_html stand_in_text slides ''Prefect Slides'' ''prefect_slides'')]"
    by auto
  have "filter is_slide_name (listdir []) = []" by (simp add: listdir_def)
  then show ?thesis
    unfolding r(1) by (simp add: r(2) create_sample_slides_locations[OF wm])
qed

section \<open>Properties of creating a slide\<close>

subsection \<open>The ordinal\<close>

lemma dropWhile_keeps:
  "x \<in> set xs \<Longrightarrow> \<not> P x \<Longrightarrow> x \<in> set (dropWhile P xs)"
  by (induction xs) auto

lemma digits_ok_chars:
  "digits_ok s \<Longrightarrow> c \<in> set s \<Longrightarrow> is_digit c \<or> c = CHR ''_''"
  by (induction s rule: digits_ok.induct) (auto split: if_splits)

lemma digits_ok_all_digits:
  "s \<noteq> [] \<Longrightarrow> list_all is_digit s \<Longrightarrow> digits_ok s"
  by (induction s rule: digits_ok.induct) (auto simp: is_digit_def)

lemma is_digit_not_other:
  assumes "is_digit c"
  shows "\<not> is_int_space c" "c \<noteq> CHR ''-''" "c \<noteq> CHR ''+''" "c \<noteq> CHR ''_''" "c \<noteq> newline"
  using assms unfolding is_digit_def is_int_space_def less_eq_char_def by auto

lemma py_int_bad_char:
  assumes "c \<in> set num" "\<not> is_digit c" "c \<notin> set ''+-_''" "\<not> is_int_space c"
  shows "py_int num = None"
proof -
  let ?t = "rev (dropWhile is_int_space (rev (dropWhile is_int_space num)))"
  let ?body = "if ?t \<noteq> [] \<and> (hd ?t = CHR ''-'' \<or> hd ?t = CHR ''+'') then tl ?t else ?t"
  from assms(1,4) have "c \<in> set (dropWhile is_int_space num)" by (rule dropWhile_keeps)
  then have "c \<in> set (rev (dropWhile is_int_space num))" by simp
  then have "c \<in> set (dropWhile is_int_space (rev (dropWhile is_int_space num)))"
    using assms(4) by (rule dropWhile_keeps)
  then have t: "c \<in> set ?t" by simp
  have "c \<in> set ?body"
  proof (cases "?t \<noteq> [] \<and> (hd ?t = CHR ''-'' \<or> hd ?t = CHR ''+'')")
    case True
    with assms(3) have "c \<noteq> hd ?t" by auto
    with t True have "c \<in> set (tl ?t)" by (cases ?t) auto
    with True show ?thesis by simp
  next
    case False
    with t show ?thesis by auto
  qed
  with assms(2,3) have "\<not> digits_ok ?body" using digits_ok_chars by fastforce
  then show ?thesis unfolding py_int_def Let_def by simp
qed

lemma py_int_digits:
  assumes "num \<noteq> []" "list_all is_digit num" "length num \<le> int_max_str_digits"
  shows "py_int num = Some (int_of_digits num)"
proof -
  from assms have first: "is_digit (hd num)" and last: "is_digit (last num)"
    by (auto simp: list_all_iff)
  from assms(1) first have a: "dropWhile is_int_space num = num"
    by (cases num) (auto simp: is_digit_not_other)
  from assms(1) last have b: "dropWhile is_int_space (rev num) = rev num"
    by (cases "rev num") (auto simp: is_digit_not_other last_rev hd_rev)
  have c: "filter (\<lambda>c. c \<noteq> CHR ''_'') num = num"
    using assms(2) by (auto simp: list_all_iff is_digit_not_other intro: filter_True)
  from first have d: "hd num \<noteq> CHR ''-''" "hd num \<noteq> CHR ''+''"
    by (simp_all add: is_digit_not_other)
  show ?thesis
    unfolding py_int_def Let_def a b rev_rev_ident
    using assms d by (simp add: digits_ok_all_digits c)
qed

text \<open>
  Claim C9, as amended. Where the content file has been read and the ordinal is not an
  integer string for \<open>int\<close>, the conversion in the body of \<open>create_slide\<close> raises
  \<open>ValueError\<close>, whatever the output directory and the environment are, and the exception
  leaves the command: nothing is written and no message is printed. That is so for the
  empty string and for every string with a character that is not a digit, a sign, an
  underscore or white space; a non-empty string of at most 4300 digits is converted.
  The claim as stated fails: the option is declared without a type, so no conversion
  happens at the boundary, and the command has no handler for the exception.
\<close>

theorem create_slide_malformed_number:
  "(py_int num = None \<longrightarrow>
      create_slide txt write_error ttl (Inr content) num sect output_dir = Inl ValueError) \<and>
   (num = [] \<longrightarrow> py_int num = None) \<and>
   ((\<exists>c \<in> set num. \<not> is_digit c \<and> c \<notin> set ''+-_'' \<and> \<not> is_int_space c) \<longrightarrow>
      py_int num = None) \<and>
   (num \<noteq> [] \<and> list_all is_digit num \<and> length num \<le> int_max_str_digits \<longrightarrow>
      py_int num = Some (int_of_digits num))"
proof (intro conjI impI)
  assume "py_int num = None"
  then show "create_slide txt write_error ttl (Inr content) num sect output_dir = Inl ValueError"
    unfolding create_slide_def by simp
next
  assume "num = []"
  then show "py_int num = None" unfolding py_int_def by simp
next
  assume "\<exists>c \<in> set num. \<not> is_digit c \<and> c \<notin> set ''+-_'' \<and> \<not> is_int_space c"
  then show "py_int num = None" using py_int_bad_char by blast
next
  assume "num \<noteq> [] \<and> list_all is_digit num \<and> length num \<le> int_max_str_digits"
  then show "py_int num = Some (int_of_digits num)" by (simp add: py_int_digits)
qed

theorem create_slide_malformed_number_witness:
  "py_int ''1.5'' = None \<and>
   \<not> is_digit (CHR ''.'') \<and> CHR ''.'' \<notin> set ''+-_'' \<and> \<not> is_int_space (CHR ''.'') \<and>
   create_slide stand_in_text (\<lambda>loc. None) ''Overview'' (Inr ''<h1>Overview</h1>'') ''1.5''
       None (Listable []) = Inl ValueError \<and>
   create_slide stand_in_text (\<lambda>loc. None) ''Overview'' (Inr ''<h1>Overview</h1>'') []
       None (Listable []) = Inl ValueError \<and>
   py_int ''007'' = Some 7"
proof -
  have a: "\<not> is_digit (CHR ''.'')" "CHR ''.'' \<notin> set ''+-_''" "\<not> is_int_space (CHR ''.'')"
    "CHR ''.'' \<in> set ''1.5''" "list_all is_digit ''007''" "int_of_digits ''007'' = 7"
    "length ''007'' \<le> int_max_str_digits"
    by code_simp+
  from create_slide_malformed_number
         [of "''1.5''" stand_in_text "\<lambda>loc. None" "''Overview''" "''<h1>Overview</h1>''"
            None "Listable []"]
       create_slide_malformed_number
         [of "[]" stand_in_text "\<lambda>loc. None" "''Overview''" "''<h1>Overview</h1>''"
            None "Listable []"]
       create_slide_malformed_number
         [of "''007''" stand_in_text "\<lambda>loc. None" "''Overview''" "''<h1>Overview</h1>''"
            None "Listable []"]
       a
  show ?thesis by auto
qed

theorem create_slide_raises_value_error:
  "create_slide stand_in_text (\<lambda>loc. None) ''My Slide'' (Inr ''<p>Body</p>'') ''abc''
     None (Listable []) = Inl ValueError"
  by code_simp

subsection \<open>The file name\<close>
































end
